theory Spec2Isabelle
  imports Complex_Main
begin

section \<open>JavaScript numbers\<close>

text \<open>
  A JavaScript number is an IEEE double. The mixer never does arithmetic on the numbers
  it is given: it only compares them (\<^verbatim>\<open>Math.min\<close>, \<^verbatim>\<open>Math.max\<close>) and stores
  them. So a number is modelled by its value: a finite real, one of the two infinities,
  or NaN. The two signed zeros are identified (both are \<open>Fin 0\<close>). Every double is such
  a value; the literal \<^verbatim>\<open>0.3\<close> is taken as \<open>3/10\<close>, which rounds to the same
  single-precision number as the double nearest to it.
\<close>

datatype jsnum = NaN | NegInf | Fin real | PosInf

text \<open>The comparison \<^verbatim>\<open>a < b\<close> of JavaScript: false as soon as one side is NaN.\<close>

fun js_less :: "jsnum \<Rightarrow> jsnum \<Rightarrow> bool" where
  "js_less NaN b = False"
| "js_less a NaN = False"
| "js_less NegInf NegInf = False"
| "js_less NegInf b = True"
| "js_less (Fin x) (Fin y) = (x < y)"
| "js_less (Fin x) PosInf = True"
| "js_less (Fin x) NegInf = False"
| "js_less PosInf b = False"

text \<open>
  \<^verbatim>\<open>Math.min(a, b)\<close> and \<^verbatim>\<open>Math.max(a, b)\<close>: NaN when an argument is NaN,
  otherwise the smaller (larger) argument.
\<close>

definition Math_min :: "jsnum \<Rightarrow> jsnum \<Rightarrow> jsnum" where
  "Math_min a b = (if a = NaN \<or> b = NaN then NaN else if js_less b a then b else a)"

definition Math_max :: "jsnum \<Rightarrow> jsnum \<Rightarrow> jsnum" where
  "Math_max a b = (if a = NaN \<or> b = NaN then NaN else if js_less a b then b else a)"

text \<open>The closed interval \<open>[0, 1]\<close> as a predicate on JavaScript numbers.\<close>

fun in_unit_range :: "jsnum \<Rightarrow> bool" where
  "in_unit_range (Fin x) = (0 \<le> x \<and> x \<le> 1)"
| "in_unit_range v = False"

section \<open>Single-precision numbers\<close>

text \<open>
  The \<^verbatim>\<open>value\<close> of an \<^verbatim>\<open>AudioParam\<close> is a single-precision number: what is
  read back after a write is the number written, rounded to the nearest
  single-precision number, ties going to the even significand (0.3 reads back
  0.30000001192092896). \<open>round_half_even\<close> rounds a real to the nearest integer in that
  way.
\<close>

definition round_half_even :: "real \<Rightarrow> int" where
  "round_half_even q =
     (let f = \<lfloor>q\<rfloor>; r = q - of_int f
      in if r < 1/2 then f else if 1/2 < r then f + 1 else if even f then f else f + 1)"

text \<open>
  The exponent of a magnitude \<open>a\<close>: the largest \<open>e\<close> from \<open>-126\<close> to \<open>127\<close> with
  \<open>2 ^ e \<le> a\<close>, searched from the top, and \<open>-126\<close> (the subnormal range) when there is
  none. Single-precision numbers with that exponent are the multiples of
  \<open>2 ^ (e - 23)\<close>.
\<close>

fun binade :: "nat \<Rightarrow> real \<Rightarrow> int" where
  "binade 0 a = - 126"
| "binade (Suc n) a = (if 2 powi (int n - 125) \<le> a then int n - 125 else binade n a)"

definition float32_exponent :: "real \<Rightarrow> int" where
  "float32_exponent x = binade 253 \<bar>x\<bar>"

definition float32_round :: "real \<Rightarrow> real" where
  "float32_round x =
     (let u = 2 powi (float32_exponent x - 23)
      in of_int (round_half_even (x / u)) * u)"

section \<open>The host platform: audio context, nodes, connections\<close>

text \<open>
  The errors the Web Audio calls of the mixer can throw: a \<^verbatim>\<open>TypeError\<close> when a
  number that is no single-precision number in the end is written to
  \<^verbatim>\<open>AudioParam.value\<close>, an \<^verbatim>\<open>InvalidStateError\<close> when
  \<^verbatim>\<open>createMediaStreamSource\<close> is given a stream without an audio track.
\<close>

datatype error = TypeError | InvalidStateError

text \<open>
  The conversion of a JavaScript number to a WebIDL \<^verbatim>\<open>float\<close>, which every write
  to \<^verbatim>\<open>gain.value\<close> goes through: NaN and the infinities throw, and so does a
  finite number whose rounding is \<open>2 ^ 128\<close> or beyond in magnitude.
\<close>

definition to_float :: "jsnum \<Rightarrow> error + real" where
  "to_float v =
     (case v of
        Fin x \<Rightarrow>
          (let y = float32_round x
           in if 2 ^ 128 \<le> \<bar>y\<bar> then Inl TypeError else Inr y)
      | _ \<Rightarrow> Inl TypeError)"

datatype context_state = Suspended | Running

text \<open>
  The audio nodes. The four nodes made by the constructor and the destination of the
  context are fixed; a media-element source carries the identity of its audio element,
  a media-stream source its own identity and the identity of the stream it reads.
\<close>

datatype node =
    ContextDestination
  | MasterGain
  | TeacherGain
  | MusicGain
  | StreamDestination
  | MediaElementSource nat
  | MediaStreamSource nat nat

text \<open>
  The live connections of the audio graph, as (from, to) pairs.
  \<^verbatim>\<open>a.connect(b)\<close> adds the pair unless it is there already (connecting twice makes
  one connection); \<^verbatim>\<open>a.disconnect()\<close> removes every connection leaving \<open>a\<close> and
  never throws.
\<close>

type_synonym graph = "(node \<times> node) list"

definition connect :: "node \<Rightarrow> node \<Rightarrow> graph \<Rightarrow> graph" where
  "connect a b g = (if (a, b) \<in> set g then g else g @ [(a, b)])"

definition disconnect_node :: "node \<Rightarrow> graph \<Rightarrow> graph" where
  "disconnect_node a g = filter (\<lambda>e. fst e \<noteq> a) g"

text \<open>The nodes with a live connection into a given node.\<close>

definition inputs_of :: "node \<Rightarrow> graph \<Rightarrow> node list" where
  "inputs_of b g = map fst (filter (\<lambda>e. snd e = b) g)"

text \<open>
  The commands the mixer issues to audio elements and to the audio context, in the
  order it issues them. A command returns at once; what it starts (loading, playing,
  the context leaving the suspended state) completes later on the host's side.
\<close>

datatype command =
    AudioLoad nat string
  | AudioPlay nat
  | AudioPause nat
  | AudioRewind nat
  | ContextResume

text \<open>A \<^verbatim>\<open>MediaStream\<close> handed to the mixer: its identity and the number of its audio tracks.\<close>

record media_stream =
  streamId :: nat
  audioTracks :: nat

section \<open>TeacherAudioMixer\<close>

text \<open>
  The object \<^verbatim>\<open>loadMusic\<close> stores in \<^verbatim>\<open>this.musicSource\<close>: three closures over the
  audio element and its media-element source node.
\<close>

record music_source =
  audio :: nat
  mediaSource :: node

text \<open>
  The state of one \<^verbatim>\<open>TeacherAudioMixer\<close>: its fields (\<open>musicSource\<close>,
  \<open>teacherSource\<close>, \<open>isPlaying\<close>, the \<^verbatim>\<open>gain.value\<close> of the two gain nodes, the
  \<^verbatim>\<open>state\<close> of its audio context, the \<^verbatim>\<open>stream\<close> of its stream destination) and
  the part of the host it owns: the connections of its graph, the counter that numbers
  the objects it creates, and the commands issued so far.
\<close>

record mixer =
  audioContextState :: context_state
  teacherGainValue :: jsnum
  musicGainValue :: jsnum
  streamDestinationStream :: nat
  musicSource :: "music_source option"
  teacherSource :: "node option"
  isPlaying :: bool
  connections :: graph
  nextId :: nat
  mediaLog :: "command list"

text \<open>
  The argument of the constructor: each of the two volumes is a number or
  \<^verbatim>\<open>undefined\<close> (\<open>None\<close>).
\<close>

record config =
  initialTeacherVolume :: "jsnum option"
  initialMusicVolume :: "jsnum option"

text \<open>
  What the host decides when the mixer is constructed: the state the new audio context
  starts in (suspended under an autoplay policy) and the identity of the stream of the
  new stream destination.
\<close>

record host =
  contextStarts :: context_state
  destinationStream :: nat

text \<open>The wiring of constructor lines 12 to 18.\<close>

definition initial_connections :: graph where
  "initial_connections =
     connect MusicGain StreamDestination
       (connect TeacherGain StreamDestination
         (connect MusicGain MasterGain
           (connect TeacherGain MasterGain
             (connect MasterGain ContextDestination []))))"

text \<open>
  The constructor. The two assignments to \<^verbatim>\<open>gain.value\<close> write the configured
  volume as it is, or the default when the field is \<^verbatim>\<open>undefined\<close>: no clamp. The
  gain keeps the single-precision rounding of the number; when the conversion throws,
  so does the constructor.
\<close>

definition constructor :: "host \<Rightarrow> config \<Rightarrow> error + mixer" where
  "constructor h c =
     (case to_float (case initialTeacherVolume c of Some v \<Rightarrow> v | None \<Rightarrow> Fin 1) of
        Inl e \<Rightarrow> Inl e
      | Inr tv \<Rightarrow>
          (case to_float (case initialMusicVolume c of Some v \<Rightarrow> v | None \<Rightarrow> Fin 0.3) of
             Inl e \<Rightarrow> Inl e
           | Inr mv \<Rightarrow>
               Inr \<lparr> audioContextState = contextStarts h,
                     teacherGainValue = Fin tv,
                     musicGainValue = Fin mv,
                     streamDestinationStream = destinationStream h,
                     musicSource = None,
                     teacherSource = None,
                     isPlaying = False,
                     connections = initial_connections,
                     nextId = 0,
                     mediaLog = [] \<rparr>))"

text \<open>
  How the load that \<^verbatim>\<open>loadMusic\<close> awaits ends: the element fires \<^verbatim>\<open>loadeddata\<close>,
  or \<^verbatim>\<open>error\<close>, or neither (then the promise never settles and the call never returns).
\<close>

datatype load_outcome = LoadedData | ErrorEvent | Unsettled

text \<open>
  \<^verbatim>\<open>loadMusic(url)\<close>. The result is \<open>Some True\<close> or \<open>Some False\<close> as the promise
  resolves, \<open>None\<close> when it never settles. The call is modelled at the moment its
  continuation runs: before the \<^verbatim>\<open>await\<close> it touches only the new audio element.
  The \<^verbatim>\<open>console.error\<close> of the catch block is not modelled.
\<close>

definition loadMusic :: "string \<Rightarrow> load_outcome \<Rightarrow> mixer \<Rightarrow> bool option \<times> mixer" where
  "loadMusic url outcome s =
     (let a = nextId s;
          s1 = s\<lparr> nextId := Suc a, mediaLog := mediaLog s @ [AudioLoad a url] \<rparr>
      in case outcome of
           Unsettled \<Rightarrow> (None, s1)
         | ErrorEvent \<Rightarrow> (Some False, s1)
         | LoadedData \<Rightarrow>
             (let ms = MediaElementSource a
              in (Some True,
                  s1\<lparr> connections := connect ms MusicGain (connections s1),
                      musicSource := Some \<lparr> audio = a, mediaSource = ms \<rparr> \<rparr>)))"

text \<open>
  \<^verbatim>\<open>setTeacherStream(mediaStream)\<close>. The result pairs the exception thrown, if any,
  with the state the call leaves: when \<^verbatim>\<open>createMediaStreamSource\<close> throws, the
  previous source has been disconnected already and stays in \<open>teacherSource\<close>.
\<close>

definition setTeacherStream :: "media_stream \<Rightarrow> mixer \<Rightarrow> error option \<times> mixer" where
  "setTeacherStream m s =
     (let s1 = (case teacherSource s of
                  Some old \<Rightarrow> s\<lparr> connections := disconnect_node old (connections s) \<rparr>
                | None \<Rightarrow> s)
      in if audioTracks m = 0 then (Some InvalidStateError, s1)
         else
           (let src = MediaStreamSource (nextId s1) (streamId m)
            in (None,
                s1\<lparr> teacherSource := Some src,
                    nextId := Suc (nextId s1),
                    connections := connect src TeacherGain (connections s1) \<rparr>)))"

text \<open>
  \<^verbatim>\<open>startMusic()\<close>. \<^verbatim>\<open>resume()\<close> and \<^verbatim>\<open>audio.play()\<close> return promises and do
  not throw; the state of the context changes only when the promise of \<^verbatim>\<open>resume()\<close>
  settles, after the call.
\<close>

definition startMusic :: "mixer \<Rightarrow> mixer" where
  "startMusic s =
     (case musicSource s of
        Some src \<Rightarrow>
          if \<not> isPlaying s then
            (let s1 = (if audioContextState s = Suspended
                       then s\<lparr> mediaLog := mediaLog s @ [ContextResume] \<rparr>
                       else s);
                 s2 = s1\<lparr> mediaLog := mediaLog s1 @ [AudioPlay (audio src)] \<rparr>
             in s2\<lparr> isPlaying := True \<rparr>)
          else s
      | None \<Rightarrow> s)"

definition stopMusic :: "mixer \<Rightarrow> mixer" where
  "stopMusic s =
     (case musicSource s of
        Some src \<Rightarrow>
          if isPlaying s then
            s\<lparr> mediaLog := mediaLog s @ [AudioPause (audio src), AudioRewind (audio src)],
               isPlaying := False \<rparr>
          else s
      | None \<Rightarrow> s)"

text \<open>
  \<^verbatim>\<open>setMusicVolume(value)\<close> and \<^verbatim>\<open>setTeacherVolume(value)\<close>: the clamp, then the
  assignment to \<^verbatim>\<open>gain.value\<close>, which keeps the single-precision rounding of the
  clamped number, or throws and leaves the gain as it was.
\<close>

definition clamp_volume :: "jsnum \<Rightarrow> jsnum" where
  "clamp_volume v = Math_max (Fin 0) (Math_min (Fin 1) v)"

definition setMusicVolume :: "jsnum \<Rightarrow> mixer \<Rightarrow> error option \<times> mixer" where
  "setMusicVolume v s =
     (case to_float (clamp_volume v) of
        Inl e \<Rightarrow> (Some e, s)
      | Inr x \<Rightarrow> (None, s\<lparr> musicGainValue := Fin x \<rparr>))"

definition setTeacherVolume :: "jsnum \<Rightarrow> mixer \<Rightarrow> error option \<times> mixer" where
  "setTeacherVolume v s =
     (case to_float (clamp_volume v) of
        Inl e \<Rightarrow> (Some e, s)
      | Inr x \<Rightarrow> (None, s\<lparr> teacherGainValue := Fin x \<rparr>))"

definition getMixedStream :: "mixer \<Rightarrow> nat" where
  "getMixedStream s = streamDestinationStream s"

text \<open>\<^verbatim>\<open>disconnect()\<close>: five calls of \<^verbatim>\<open>disconnect()\<close> on nodes, no field is written.\<close>

definition disconnect :: "mixer \<Rightarrow> mixer" where
  "disconnect s =
     (let s1 = (case musicSource s of
                  Some src \<Rightarrow> s\<lparr> connections := disconnect_node (mediaSource src) (connections s) \<rparr>
                | None \<Rightarrow> s);
          s2 = (case teacherSource s1 of
                  Some t \<Rightarrow> s1\<lparr> connections := disconnect_node t (connections s1) \<rparr>
                | None \<Rightarrow> s1)
      in s2\<lparr> connections :=
               disconnect_node MasterGain
                 (disconnect_node MusicGain
                   (disconnect_node TeacherGain (connections s2))) \<rparr>)"

section \<open>Sequences of calls\<close>

text \<open>
  One step in the life of a mixer: a call of one of its methods, or the host changing
  the state of the audio context (the promise of \<^verbatim>\<open>resume()\<close> settling, the platform
  suspending the context). \<open>LoadMusic\<close> carries, besides the locator, how the awaited
  load ends.
\<close>

datatype event =
    LoadMusic string load_outcome
  | SetTeacherStream media_stream
  | StartMusic
  | StopMusic
  | SetMusicVolume jsnum
  | SetTeacherVolume jsnum
  | GetMixedStream
  | Disconnect
  | ContextStateChanges context_state

text \<open>The state a step leaves, also when the call throws, and the exception it throws, if any.\<close>

fun exec :: "event \<Rightarrow> mixer \<Rightarrow> mixer" where
  "exec (LoadMusic url outcome) s = snd (loadMusic url outcome s)"
| "exec (SetTeacherStream m) s = snd (setTeacherStream m s)"
| "exec StartMusic s = startMusic s"
| "exec StopMusic s = stopMusic s"
| "exec (SetMusicVolume v) s = snd (setMusicVolume v s)"
| "exec (SetTeacherVolume v) s = snd (setTeacherVolume v s)"
| "exec GetMixedStream s = s"
| "exec Disconnect s = disconnect s"
| "exec (ContextStateChanges st) s = s\<lparr> audioContextState := st \<rparr>"

fun thrown :: "event \<Rightarrow> mixer \<Rightarrow> error option" where
  "thrown (SetTeacherStream m) s = fst (setTeacherStream m s)"
| "thrown (SetMusicVolume v) s = fst (setMusicVolume v s)"
| "thrown (SetTeacherVolume v) s = fst (setTeacherVolume v s)"
| "thrown c s = None"

fun run :: "event list \<Rightarrow> mixer \<Rightarrow> mixer" where
  "run [] s = s"
| "run (c # cs) s = run cs (exec c s)"

section \<open>Observations\<close>

text \<open>The commands issued between a state and a later one.\<close>

definition commands_issued :: "mixer \<Rightarrow> mixer \<Rightarrow> command list" where
  "commands_issued s s' = drop (length (mediaLog s)) (mediaLog s')"

text \<open>
  In a sequence of commands, no play command comes before the first resume command:
  every \<open>AudioPlay\<close> of the sequence has a \<open>ContextResume\<close> before it.
\<close>

fun resume_before_play :: "command list \<Rightarrow> bool" where
  "resume_before_play [] = True"
| "resume_before_play (ContextResume # cs) = True"
| "resume_before_play (AudioPlay a # cs) = False"
| "resume_before_play (c # cs) = resume_before_play cs"

text \<open>How many load commands a sequence holds.\<close>

fun is_load :: "command \<Rightarrow> bool" where
  "is_load (AudioLoad a url) = True"
| "is_load c = False"

text \<open>\<open>a \<le> b\<close> on JavaScript numbers: false as soon as one side is NaN.\<close>

definition js_le :: "jsnum \<Rightarrow> jsnum \<Rightarrow> bool" where
  "js_le a b = (a \<noteq> NaN \<and> b \<noteq> NaN \<and> \<not> js_less b a)"

text \<open>
  The microphone streams heard in the merged output: the streams of the media-stream
  sources connected to a node that is connected to the stream destination.
\<close>

fun stream_of :: "node \<Rightarrow> nat option" where
  "stream_of (MediaStreamSource i st) = Some st"
| "stream_of n = None"

definition merged_microphone_streams :: "graph \<Rightarrow> nat list" where
  "merged_microphone_streams g =
     List.map_filter
       (\<lambda>e. if (snd e, StreamDestination) \<in> set g then stream_of (fst e) else None) g"

text \<open>
  The invariant of the microphone slot: a connection into the teacher gain, and a
  connection out of a media-stream source, is the connection from the current
  \<open>teacherSource\<close> to the teacher gain; and \<open>teacherSource\<close> is a media-stream source
  created earlier.
\<close>

fun created_before :: "nat \<Rightarrow> node \<Rightarrow> bool" where
  "created_before k (MediaStreamSource i st) = (i < k)"
| "created_before k n = False"

definition teacher_slot_inv :: "mixer \<Rightarrow> bool" where
  "teacher_slot_inv s =
     ((\<forall>e \<in> set (connections s).
         (snd e = TeacherGain \<or> stream_of (fst e) \<noteq> None) \<longrightarrow>
         (snd e = TeacherGain \<and> teacherSource s = Some (fst e))) \<and>
      (case teacherSource s of None \<Rightarrow> True | Some n \<Rightarrow> created_before (nextId s) n))"

text \<open>
  The three gain nodes and the two outputs: the stream destination, whose stream is the
  merged output, and the destination of the context, the local output.
\<close>

fun gain_stage :: "node \<Rightarrow> bool" where
  "gain_stage MasterGain = True"
| "gain_stage TeacherGain = True"
| "gain_stage MusicGain = True"
| "gain_stage n = False"

fun output_node :: "node \<Rightarrow> bool" where
  "output_node StreamDestination = True"
| "output_node ContextDestination = True"
| "output_node n = False"

text \<open>
  The invariant of the outputs: only gain nodes are connected to them. And the graph
  after shutdown: nothing leaves a gain node and nothing enters an output.
\<close>

definition outputs_inv :: "mixer \<Rightarrow> bool" where
  "outputs_inv s = (\<forall>e \<in> set (connections s). output_node (snd e) \<longrightarrow> gain_stage (fst e))"

definition torn_down :: "mixer \<Rightarrow> bool" where
  "torn_down s =
     (\<forall>e \<in> set (connections s). \<not> gain_stage (fst e) \<and> \<not> output_node (snd e))"






section \<open>Example states\<close>

definition example_host :: host where
  "example_host = \<lparr> contextStarts = Suspended, destinationStream = 7 \<rparr>"

definition default_config :: config where
  "default_config = \<lparr> initialTeacherVolume = None, initialMusicVolume = None \<rparr>"

text \<open>
  The mixer \<^verbatim>\<open>new TeacherAudioMixer({})\<close> in a context that starts suspended. Its
  music gain is the single-precision rounding of 0.3.
\<close>

definition new_mixer :: mixer where
  "new_mixer =
     \<lparr> audioContextState = Suspended, teacherGainValue = Fin 1,
       musicGainValue = Fin (5033165 / 16777216), streamDestinationStream = 7, musicSource = None, teacherSource = None,
       isPlaying = False, connections = initial_connections, nextId = 0, mediaLog = [] \<rparr>"

text \<open>The same mixer after \<^verbatim>\<open>loadMusic\<close> has succeeded once, and then after \<^verbatim>\<open>startMusic\<close>.\<close>

definition loaded_mixer :: mixer where
  "loaded_mixer = snd (loadMusic ''/audio/demo.mp3'' LoadedData new_mixer)"


definition first_stream :: media_stream where
  "first_stream = \<lparr> streamId = 11, audioTracks = 1 \<rparr>"

definition second_stream :: media_stream where
  "second_stream = \<lparr> streamId = 12, audioTracks = 1 \<rparr>"


text \<open>The nodes \<^verbatim>\<open>disconnect()\<close> calls \<^verbatim>\<open>disconnect()\<close> on.\<close>

definition shutdown_nodes :: "mixer \<Rightarrow> node set" where
  "shutdown_nodes s =
     {MasterGain, MusicGain, TeacherGain} \<union> mediaSource ` set_option (musicSource s)
       \<union> set_option (teacherSource s)"

section \<open>The play button of the MusicPlayer component\<close>

text \<open>
  What \<^verbatim>\<open>togglePlay\<close> of \<^verbatim>\<open>MusicPlayer.js\<close> reads: the \<^verbatim>\<open>audioError\<close> and
  \<^verbatim>\<open>isPlaying\<close> state of the render it closes over, and the refs (\<open>None\<close> or
  \<open>False\<close> for a ref whose \<^verbatim>\<open>current\<close> is null).
\<close>

record player =
  audioError :: "string option"
  audioRef :: "nat option"
  audioContextRef :: "context_state option"
  audioGainRef :: bool
  audioSourceRef :: bool
  playing :: bool

text \<open>
  The audio commands \<^verbatim>\<open>connectAudioElement\<close> and \<^verbatim>\<open>togglePlay\<close> issue before
  they return, in order. The calls to the meeting SDK, the React state setters and the
  callbacks of the promise of \<^verbatim>\<open>play()\<close> are left out. An empty error message is
  falsy, as \<^verbatim>\<open>null\<close> is.
\<close>

definition connectAudioElement_commands :: "player \<Rightarrow> command list" where
  "connectAudioElement_commands p =
     (if audioRef p = None \<or> audioContextRef p = None \<or> \<not> audioGainRef p then []
      else if \<not> audioSourceRef p then
        (if audioContextRef p = Some Suspended then [ContextResume] else [])
      else [])"

definition togglePlay_commands :: "player \<Rightarrow> command list" where
  "togglePlay_commands p =
     (if (case audioError p of Some msg \<Rightarrow> msg \<noteq> [] | None \<Rightarrow> False) then []
      else case audioRef p of
             None \<Rightarrow> []
           | Some a \<Rightarrow>
               (if audioContextRef p = Some Suspended then [ContextResume] else []) @
               (if \<not> playing p then connectAudioElement_commands p @ [AudioPlay a]
                else [AudioPause a]))"

section \<open>Single-precision rounding\<close>

lemma binade_range: "- 126 \<le> binade n a \<and> binade n a \<le> int n - 126"
  by (induction n) auto

lemma binade_lower: "binade n a \<noteq> - 126 \<Longrightarrow> 2 powi (binade n a) \<le> a"
  by (induction n) (auto split: if_splits)

lemma binade_upper: "binade n a < k \<Longrightarrow> k \<le> int n - 126 \<Longrightarrow> a < 2 powi k"
proof (induction n)
  case 0
  then show ?case by simp
next
  case (Suc n)
  show ?case
  proof (cases "2 powi (int n - 125) \<le> a")
    case True
    then show ?thesis using Suc.prems by simp
  next
    case False
    show ?thesis
    proof (cases "k = int n - 125")
      case True
      then show ?thesis using False by simp
    next
      case k: False
      then show ?thesis using Suc False by simp
    qed
  qed
qed

lemma binade_eq:
  assumes "2 powi e \<le> a" and "a < 2 powi (e + 1)" and "- 126 \<le> e" and "e \<le> int n - 126"
  shows "binade n a = e"
proof (rule ccontr)
  assume ne: "binade n a \<noteq> e"
  show False
  proof (cases "binade n a < e")
    case True
    then have "a < 2 powi e" using binade_upper assms(4) by blast
    then show False using assms(1) by simp
  next
    case False
    then have gt: "e < binade n a" using ne by simp
    then have "2 powi (binade n a) \<le> a" using binade_lower [of n a] assms(3) by simp
    moreover have "(2::real) powi (e + 1) \<le> 2 powi (binade n a)"
      using gt by (intro power_int_increasing) auto
    ultimately show False using assms(2) by simp
  qed
qed

lemma round_half_even_of_int: "round_half_even (of_int k) = k"
  by (simp add: round_half_even_def)

lemma round_half_even_bounds: "\<lfloor>q\<rfloor> \<le> round_half_even q \<and> round_half_even q \<le> \<lfloor>q\<rfloor> + 1"
  by (simp add: round_half_even_def Let_def)

lemma float32_round_0: "float32_round 0 = 0"
  using round_half_even_of_int [of 0] by (simp add: float32_round_def)

lemma float32_exponent_1: "float32_exponent 1 = 0"
  unfolding float32_exponent_def by (rule binade_eq) simp_all

lemma float32_round_1: "float32_round 1 = 1"
proof -
  have "(1::real) / 2 powi (- 23) = of_int (2 ^ 23)"
    by (simp add: power_int_minus)
  then have "round_half_even (1 / 2 powi (- 23)) = 2 ^ 23"
    using round_half_even_of_int [of "2 ^ 23"] by simp
  then show ?thesis
    by (simp add: float32_round_def float32_exponent_1 power_int_minus)
qed

lemma float32_round_unit:
  assumes "0 \<le> x" and "x \<le> 1"
  shows "0 \<le> float32_round x \<and> float32_round x \<le> 1"
proof (cases "x = 1")
  case True
  then show ?thesis by (simp add: float32_round_1)
next
  case False
  then have x1: "x < 1" using assms by simp
  define e where "e = float32_exponent x"
  define u :: real where "u = 2 powi (e - 23)"
  have e_def': "e = binade 253 x" using assms by (simp add: e_def float32_exponent_def)
  have upos: "0 < u" by (simp add: u_def)
  have e_lt: "e < 0"
  proof (cases "e = - 126")
    case True
    then show ?thesis by simp
  next
    case False
    then have "2 powi e \<le> x" using binade_lower [of 253 x] e_def' by simp
    then have "(2::real) powi e < 2 powi 0" using x1 by simp
    then show ?thesis by (rule power_int_le_imp_less_exp [rotated]) simp_all
  qed
  have range: "- 126 \<le> e" using binade_range [of 253 x] e_def' by simp
  have "x < 2 powi (e + 1)"
    using binade_upper [of 253 x "e + 1"] e_def' e_lt by simp
  then have "x / u < 2 powi (e + 1) / u" using upos by (simp add: divide_strict_right_mono)
  also have "2 powi (e + 1) / u = 2 powi 24"
    by (simp add: u_def power_int_diff [symmetric])
  finally have q: "x / u < 2 ^ 24" by simp
  have "\<lfloor>x / u\<rfloor> < 2 ^ 24" using q by (simp add: floor_less_iff)
  then have k_hi: "round_half_even (x / u) \<le> 2 ^ 24"
    using round_half_even_bounds [of "x / u"] by linarith
  have "0 \<le> x / u" using assms upos by simp
  then have "0 \<le> \<lfloor>x / u\<rfloor>" by simp
  then have k_lo: "0 \<le> round_half_even (x / u)"
    using round_half_even_bounds [of "x / u"] by linarith
  have r: "float32_round x = of_int (round_half_even (x / u)) * u"
    by (simp add: float32_round_def u_def e_def Let_def)
  have lo: "0 \<le> float32_round x" using k_lo upos by (simp add: r)
  have "of_int (round_half_even (x / u)) * u \<le> 2 ^ 24 * u"
    using k_hi upos by (simp add: mult_right_mono)
  also have "2 ^ 24 * u = 2 powi (e + 1)"
  proof -
    have "24 + (e - 23) = e + 1" by simp
    then have "(2::real) powi (e + 1) = 2 powi 24 * 2 powi (e - 23)"
      using power_int_add [of "2::real" 24 "e - 23"] by (simp add: add.commute)
    then show ?thesis by (simp add: u_def)
  qed
  also have "\<dots> \<le> 2 powi 0" using e_lt by (intro power_int_increasing) auto
  finally have hi: "float32_round x \<le> 1" by (simp add: r)
  show ?thesis using lo hi by simp
qed

lemma float32_round_eq:
  assumes "2 powi e \<le> \<bar>x\<bar>" and "\<bar>x\<bar> < 2 powi (e + 1)" and "- 126 \<le> e" and "e \<le> 127"
  shows "float32_round x = of_int (round_half_even (x / 2 powi (e - 23))) * 2 powi (e - 23)"
proof -
  have "float32_exponent x = e"
    unfolding float32_exponent_def using assms by (intro binade_eq) simp_all
  then show ?thesis by (simp add: float32_round_def Let_def)
qed

lemma float32_round_half: "float32_round (1/2) = 1/2"
  using float32_round_eq [of "- 1" "1/2"]
  by (simp add: power_int_minus round_half_even_def Let_def)

lemma float32_round_three_halves: "float32_round (3/2) = 3/2"
  using float32_round_eq [of 0 "3/2"]
  by (simp add: power_int_minus round_half_even_def Let_def)

lemma float32_round_three_tenths: "float32_round (3/10) = 5033165 / 16777216"
  using float32_round_eq [of "- 2" "3/10"]
  by (simp add: power_int_minus round_half_even_def Let_def)

text \<open>
  Below the smallest subnormal the rounding is 0; beyond the largest single-precision
  number the conversion throws.
\<close>

lemma binade_subnormal:
  assumes "a < 2 powi (- 125)"
  shows "binade n a = - 126"
proof (rule ccontr)
  assume ne: "binade n a \<noteq> - 126"
  then have "2 powi (binade n a) \<le> a" by (rule binade_lower)
  then have lt: "(2::real) powi (binade n a) < 2 powi (- 125)" using assms by simp
  have "binade n a < - 125"
  proof (rule ccontr)
    assume "\<not> binade n a < - 125"
    then have "(2::real) powi (- 125) \<le> 2 powi (binade n a)"
      by (intro power_int_increasing) auto
    then show False using lt by simp
  qed
  then show False using binade_range [of n a] ne by linarith
qed

lemma binade_top:
  assumes "2 powi 127 \<le> a"
  shows "binade 253 a = 127"
proof -
  have "binade (Suc 252) a =
          (if 2 powi (int 252 - 125) \<le> a then int 252 - 125 else binade 252 a)"
    by (rule binade.simps(2))
  then show ?thesis using assms by simp
qed

lemma float32_round_underflow: "float32_round (1 / 10 ^ 50) = 0"
proof -
  have "float32_exponent (1 / 10 ^ 50) = - 126"
    unfolding float32_exponent_def by (rule binade_subnormal) (simp add: power_int_minus)
  then show ?thesis
    by (simp add: float32_round_def Let_def power_int_minus round_half_even_def)
qed

lemma to_float_overflow: "to_float (Fin (10 ^ 39)) = Inl TypeError"
proof -
  have "float32_exponent (10 ^ 39) = 127"
    unfolding float32_exponent_def by (rule binade_top) simp
  then show ?thesis
    by (simp add: to_float_def float32_round_def Let_def round_half_even_def)
qed

lemma to_float_unit:
  "0 \<le> x \<Longrightarrow> x \<le> 1 \<Longrightarrow> to_float (Fin x) = Inr (float32_round x)"
  using float32_round_unit [of x] by (simp add: to_float_def Let_def)

lemma to_float_values:
  "to_float NaN = Inl TypeError"
  "to_float (Fin 0) = Inr 0"
  "to_float (Fin 1) = Inr 1"
  "to_float (Fin (1/2)) = Inr (1/2)"
  "to_float (Fin (3/2)) = Inr (3/2)"
  "to_float (Fin (3/10)) = Inr (5033165 / 16777216)"
  by (simp_all add: to_float_def float32_round_0 float32_round_1 float32_round_half
      float32_round_three_halves float32_round_three_tenths)

section \<open>Basic facts\<close>

lemma new_mixer_constructed: "constructor example_host default_config = Inr new_mixer"
  by (simp add: constructor_def example_host_def default_config_def new_mixer_def
      to_float_values)

lemma clamp_volume_cases:
  "clamp_volume NaN = NaN"
  "clamp_volume PosInf = Fin 1"
  "clamp_volume NegInf = Fin 0"
  "clamp_volume (Fin x) = Fin (max 0 (min 1 x))"
  by (auto simp: clamp_volume_def Math_max_def Math_min_def)

lemma clamp_volume_range: "v \<noteq> NaN \<Longrightarrow> \<exists>x. clamp_volume v = Fin x \<and> 0 \<le> x \<and> x \<le> 1"
  by (cases v) (simp_all add: clamp_volume_cases)

lemma constructor_gains:
  "constructor h c = Inr s \<Longrightarrow>
     map_sum id Fin (to_float (case initialTeacherVolume c of Some v \<Rightarrow> v | None \<Rightarrow> Fin 1)) =
       Inr (teacherGainValue s) \<and>
     map_sum id Fin (to_float (case initialMusicVolume c of Some v \<Rightarrow> v | None \<Rightarrow> Fin 0.3)) =
       Inr (musicGainValue s)"
  by (auto simp: constructor_def split: sum.splits)

lemma constructor_throws_beyond_single_precision:
  "constructor h \<lparr> initialTeacherVolume = None, initialMusicVolume = Some (Fin (10 ^ 39)) \<rparr> =
     Inl TypeError"
  using to_float_overflow by (simp add: constructor_def to_float_values)

lemma constructor_stream: "constructor h c = Inr s \<Longrightarrow> getMixedStream s = destinationStream h"
  by (auto simp: constructor_def getMixedStream_def split: sum.splits)

subsection \<open>Shutdown as one filter\<close>

lemma disconnect_filter:
  "disconnect s = s\<lparr> connections := filter (\<lambda>e. fst e \<notin> shutdown_nodes s) (connections s) \<rparr>"
  by (auto simp: disconnect_def Let_def disconnect_node_def shutdown_nodes_def
      split: option.splits intro!: arg_cong[where f="\<lambda>g. s\<lparr>connections := g\<rparr>"] filter_cong)

lemma shutdown_nodes_connections: "shutdown_nodes (s\<lparr>connections := g\<rparr>) = shutdown_nodes s"
  by (simp add: shutdown_nodes_def)

lemma disconnect_twice: "disconnect (disconnect s) = disconnect s"
  by (simp add: disconnect_filter shutdown_nodes_connections)

subsection \<open>No call replaces the stream of the stream destination\<close>

lemma getMixedStream_exec: "getMixedStream (exec c s) = getMixedStream s"
  by (cases c) (simp_all add: getMixedStream_def loadMusic_def setTeacherStream_def startMusic_def
      stopMusic_def setMusicVolume_def setTeacherVolume_def disconnect_filter Let_def
      split: option.splits load_outcome.splits sum.splits)

lemma getMixedStream_run: "getMixedStream (run cs s) = getMixedStream s"
  by (induction cs arbitrary: s) (simp_all add: getMixedStream_exec)

subsection \<open>The invariant of the microphone slot\<close>

lemma created_before_mono: "created_before k n \<Longrightarrow> k \<le> k' \<Longrightarrow> created_before k' n"
  by (cases n) simp_all

lemma created_before_stream:
  "created_before k n \<Longrightarrow> \<exists>i st. n = MediaStreamSource i st \<and> i < k"
  by (cases n) simp_all

lemma teacher_slot_inv_constructor: "constructor h c = Inr s \<Longrightarrow> teacher_slot_inv s"
  by (auto simp: constructor_def teacher_slot_inv_def initial_connections_def connect_def
      split: sum.splits)

lemma teacher_slot_inv_loadMusic:
  "teacher_slot_inv s \<Longrightarrow> teacher_slot_inv (snd (loadMusic url outcome s))"
  by (auto simp: teacher_slot_inv_def loadMusic_def connect_def Let_def
      split: load_outcome.splits option.splits intro: created_before_mono)

lemma teacher_slot_inv_setTeacherStream:
  "teacher_slot_inv s \<Longrightarrow> teacher_slot_inv (snd (setTeacherStream m s))"
  by (auto simp: teacher_slot_inv_def setTeacherStream_def connect_def disconnect_node_def Let_def
      split: option.splits if_splits)

lemma teacher_slot_inv_startMusic: "teacher_slot_inv s \<Longrightarrow> teacher_slot_inv (startMusic s)"
  by (auto simp: teacher_slot_inv_def startMusic_def Let_def split: option.splits)

lemma teacher_slot_inv_stopMusic: "teacher_slot_inv s \<Longrightarrow> teacher_slot_inv (stopMusic s)"
  by (auto simp: teacher_slot_inv_def stopMusic_def Let_def split: option.splits)

lemma teacher_slot_inv_setMusicVolume:
  "teacher_slot_inv s \<Longrightarrow> teacher_slot_inv (snd (setMusicVolume v s))"
  by (auto simp: teacher_slot_inv_def setMusicVolume_def split: option.splits sum.splits)

lemma teacher_slot_inv_setTeacherVolume:
  "teacher_slot_inv s \<Longrightarrow> teacher_slot_inv (snd (setTeacherVolume v s))"
  by (auto simp: teacher_slot_inv_def setTeacherVolume_def split: option.splits sum.splits)

lemma teacher_slot_inv_disconnect: "teacher_slot_inv s \<Longrightarrow> teacher_slot_inv (disconnect s)"
  by (auto simp: teacher_slot_inv_def disconnect_def disconnect_node_def Let_def
      split: option.splits)

lemma teacher_slot_inv_context:
  "teacher_slot_inv s \<Longrightarrow> teacher_slot_inv (s\<lparr> audioContextState := st \<rparr>)"
  by (simp add: teacher_slot_inv_def split: option.splits)

lemma teacher_slot_inv_exec: "teacher_slot_inv s \<Longrightarrow> teacher_slot_inv (exec c s)"
  by (cases c) (simp_all add: teacher_slot_inv_context teacher_slot_inv_loadMusic teacher_slot_inv_setTeacherStream
      teacher_slot_inv_startMusic teacher_slot_inv_stopMusic teacher_slot_inv_setMusicVolume
      teacher_slot_inv_setTeacherVolume teacher_slot_inv_disconnect)

lemma teacher_slot_inv_run: "teacher_slot_inv s \<Longrightarrow> teacher_slot_inv (run cs s)"
  by (induction cs arbitrary: s) (simp_all add: teacher_slot_inv_exec)

text \<open>
  Replacing the microphone source in a state that satisfies the invariant: the call
  does not throw, the previous source has no connection left, and the only input of
  the teacher gain, and the only microphone stream in the merged output, is the new one.
\<close>

lemma replace_teacher_source:
  assumes inv: "teacher_slot_inv s"
    and old: "teacherSource s = Some old"
    and tracks: "0 < audioTracks m"
  shows "fst (setTeacherStream m s) = None"
    and "old \<notin> fst ` set (connections (snd (setTeacherStream m s)))"
    and "teacherSource (snd (setTeacherStream m s)) =
           Some (MediaStreamSource (nextId s) (streamId m))"
    and "inputs_of TeacherGain (connections (snd (setTeacherStream m s))) =
           [MediaStreamSource (nextId s) (streamId m)]"
    and "merged_microphone_streams (connections (snd (setTeacherStream m s))) =
           (if (TeacherGain, StreamDestination) \<in> set (connections s) then [streamId m] else [])"
proof -
  let ?src = "MediaStreamSource (nextId s) (streamId m)"
  let ?G = "disconnect_node old (connections s)"
  obtain i st where o: "old = MediaStreamSource i st" "i < nextId s"
    using inv old created_before_stream[of "nextId s" old] by (auto simp: teacher_slot_inv_def)
  have G: "\<forall>e \<in> set ?G. stream_of (fst e) = None \<and> snd e \<noteq> TeacherGain"
    using inv old by (auto simp: teacher_slot_inv_def disconnect_node_def)
  then have notin: "(?src, TeacherGain) \<notin> set ?G" by auto
  have res: "setTeacherStream m s =
      (None, s\<lparr> connections := ?G @ [(?src, TeacherGain)], teacherSource := Some ?src,
                 nextId := Suc (nextId s) \<rparr>)"
    using old tracks notin by (simp add: setTeacherStream_def Let_def connect_def)
  show "fst (setTeacherStream m s) = None" by (simp add: res)
  show "teacherSource (snd (setTeacherStream m s)) = Some ?src" by (simp add: res)
  show "old \<notin> fst ` set (connections (snd (setTeacherStream m s)))"
    using o by (auto simp: res disconnect_node_def)
  have f1: "filter (\<lambda>e. snd e = TeacherGain) ?G = []"
    using G by (auto simp: filter_empty_conv)
  show "inputs_of TeacherGain (connections (snd (setTeacherStream m s))) = [?src]"
    by (simp add: res inputs_of_def f1)
  have wired: "(TeacherGain, StreamDestination) \<in> set (?G @ [(?src, TeacherGain)]) \<longleftrightarrow>
               (TeacherGain, StreamDestination) \<in> set (connections s)"
    using o by (auto simp: disconnect_node_def)
  have f2: "filter (\<lambda>e. (if (snd e, StreamDestination) \<in> set (?G @ [(?src, TeacherGain)])
                          then stream_of (fst e) else None) \<noteq> None) ?G = []"
    using G by (auto simp: filter_empty_conv)
  show "merged_microphone_streams (connections (snd (setTeacherStream m s))) =
           (if (TeacherGain, StreamDestination) \<in> set (connections s) then [streamId m] else [])"
    unfolding res merged_microphone_streams_def map_filter_def
    using f2 wired by (simp del: set_append)
qed

text \<open>
  The same call with any stream, also one for which \<^verbatim>\<open>createMediaStreamSource\<close>
  throws: the previous source has no connection left and no other microphone stream
  than the new one is in the merged output.
\<close>

lemma replace_teacher_source_any:
  assumes inv: "teacher_slot_inv s"
    and old: "teacherSource s = Some old"
  shows "old \<notin> fst ` set (connections (snd (setTeacherStream m s)))"
    and "set (merged_microphone_streams (connections (snd (setTeacherStream m s)))) \<subseteq> {streamId m}"
proof -
  show "old \<notin> fst ` set (connections (snd (setTeacherStream m s)))"
  proof (cases "audioTracks m = 0")
    case True
    then show ?thesis using old by (auto simp: setTeacherStream_def disconnect_node_def)
  next
    case False
    then show ?thesis using replace_teacher_source(2) [OF inv old, of m] by simp
  qed
  show "set (merged_microphone_streams (connections (snd (setTeacherStream m s)))) \<subseteq> {streamId m}"
  proof (cases "audioTracks m = 0")
    case True
    have "\<forall>e \<in> set (disconnect_node old (connections s)). stream_of (fst e) = None"
      using inv old by (auto simp: teacher_slot_inv_def disconnect_node_def)
    then have "merged_microphone_streams (disconnect_node old (connections s)) = []"
      by (auto simp: merged_microphone_streams_def map_filter_def filter_empty_conv)
    then show ?thesis using True old by (simp add: setTeacherStream_def)
  next
    case False
    then show ?thesis using replace_teacher_source(5) [OF inv old, of m] by auto
  qed
qed

subsection \<open>A successful load keeps what was connected\<close>

lemma loadMusic_keeps_connections:
  "set (connections s) \<subseteq> set (connections (snd (loadMusic url outcome s)))"
  by (auto simp: loadMusic_def connect_def Let_def split: load_outcome.splits)

subsection \<open>The outputs after shutdown\<close>

lemma outputs_inv_constructor: "constructor h c = Inr s \<Longrightarrow> outputs_inv s"
  by (auto simp: constructor_def outputs_inv_def initial_connections_def connect_def
      split: sum.splits)

lemma gain_stage_iff: "gain_stage n \<longleftrightarrow> n = MasterGain \<or> n = TeacherGain \<or> n = MusicGain"
  by (cases n) simp_all

lemma connections_loadMusic:
  "e \<in> set (connections (snd (loadMusic url outcome s))) \<Longrightarrow>
     e \<in> set (connections s) \<or> (\<not> gain_stage (fst e) \<and> \<not> output_node (snd e))"
  by (auto simp: loadMusic_def connect_def Let_def split: load_outcome.splits if_splits)

lemma connections_setTeacherStream:
  "e \<in> set (connections (snd (setTeacherStream m s))) \<Longrightarrow>
     e \<in> set (connections s) \<or> (\<not> gain_stage (fst e) \<and> \<not> output_node (snd e))"
  by (auto simp: setTeacherStream_def connect_def disconnect_node_def Let_def
      split: option.splits if_splits)

lemma connections_startMusic: "connections (startMusic s) = connections s"
  by (simp add: startMusic_def Let_def split: option.splits)

lemma connections_stopMusic: "connections (stopMusic s) = connections s"
  by (simp add: stopMusic_def split: option.splits)

lemma connections_setMusicVolume: "connections (snd (setMusicVolume v s)) = connections s"
  by (simp add: setMusicVolume_def split: sum.splits)

lemma connections_setTeacherVolume: "connections (snd (setTeacherVolume v s)) = connections s"
  by (simp add: setTeacherVolume_def split: sum.splits)

lemma connections_disconnect: "set (connections (disconnect s)) \<subseteq> set (connections s)"
  by (auto simp: disconnect_filter)

lemma connections_exec:
  assumes "e \<in> set (connections (exec c s))"
  shows "e \<in> set (connections s) \<or> (\<not> gain_stage (fst e) \<and> \<not> output_node (snd e))"
proof (cases c)
  case (LoadMusic url outcome)
  then show ?thesis using assms connections_loadMusic [of e url outcome s] by simp
next
  case (SetTeacherStream m)
  then show ?thesis using assms connections_setTeacherStream [of e m s] by simp
next
  case Disconnect
  then show ?thesis using assms connections_disconnect [of s] by auto
qed (use assms in \<open>simp_all add: connections_startMusic connections_stopMusic connections_setMusicVolume
      connections_setTeacherVolume\<close>)

lemma outputs_inv_exec:
  assumes "outputs_inv s"
  shows "outputs_inv (exec c s)"
  unfolding outputs_inv_def
proof (intro ballI impI)
  fix e assume e: "e \<in> set (connections (exec c s))" and o: "output_node (snd e)"
  then have "e \<in> set (connections s)" using connections_exec [OF e] by simp
  then show "gain_stage (fst e)" using assms o by (simp add: outputs_inv_def)
qed

lemma outputs_inv_run: "outputs_inv s \<Longrightarrow> outputs_inv (run cs s)"
  by (induction cs arbitrary: s) (simp_all add: outputs_inv_exec)

lemma torn_down_disconnect:
  assumes "outputs_inv s"
  shows "torn_down (disconnect s)"
  unfolding torn_down_def
proof
  fix e assume "e \<in> set (connections (disconnect s))"
  then have e: "e \<in> set (connections s)" and n: "fst e \<notin> shutdown_nodes s"
    by (simp_all add: disconnect_filter)
  have g: "\<not> gain_stage (fst e)"
    using n by (auto simp: gain_stage_iff shutdown_nodes_def)
  then have "\<not> output_node (snd e)"
    using assms e by (auto simp: outputs_inv_def)
  then show "\<not> gain_stage (fst e) \<and> \<not> output_node (snd e)" using g by simp
qed

lemma torn_down_exec:
  assumes "torn_down s"
  shows "torn_down (exec c s)"
  unfolding torn_down_def
proof
  fix e assume e: "e \<in> set (connections (exec c s))"
  show "\<not> gain_stage (fst e) \<and> \<not> output_node (snd e)"
    using connections_exec [OF e] assms by (auto simp: torn_down_def)
qed

lemma torn_down_run: "torn_down s \<Longrightarrow> torn_down (run cs s)"
  by (induction cs arbitrary: s) (simp_all add: torn_down_exec)

lemma torn_down_outputs:
  "torn_down s \<Longrightarrow>
     inputs_of StreamDestination (connections s) = [] \<and>
     inputs_of ContextDestination (connections s) = []"
  by (auto simp: torn_down_def inputs_of_def filter_empty_conv)

text \<open>
  No method reads the connections to decide what it does to the fields of the mixer or
  whether it throws.
\<close>

lemma loadMusic_connections_irrelevant:
  "(snd (loadMusic url outcome (s\<lparr> connections := g \<rparr>)))\<lparr> connections := [] \<rparr> =
     (snd (loadMusic url outcome s))\<lparr> connections := [] \<rparr>"
  by (simp add: loadMusic_def Let_def split: load_outcome.splits)

lemma setTeacherStream_connections_irrelevant:
  "(snd (setTeacherStream m (s\<lparr> connections := g \<rparr>)))\<lparr> connections := [] \<rparr> =
     (snd (setTeacherStream m s))\<lparr> connections := [] \<rparr>"
  by (simp add: setTeacherStream_def Let_def split: option.splits)

lemma startMusic_connections_irrelevant:
  "(startMusic (s\<lparr> connections := g \<rparr>))\<lparr> connections := [] \<rparr> =
     (startMusic s)\<lparr> connections := [] \<rparr>"
  by (simp add: startMusic_def Let_def split: option.splits)

lemma stopMusic_connections_irrelevant:
  "(stopMusic (s\<lparr> connections := g \<rparr>))\<lparr> connections := [] \<rparr> =
     (stopMusic s)\<lparr> connections := [] \<rparr>"
  by (simp add: stopMusic_def split: option.splits)

lemma setVolume_connections_irrelevant:
  "(snd (setMusicVolume v (s\<lparr> connections := g \<rparr>)))\<lparr> connections := [] \<rparr> =
     (snd (setMusicVolume v s))\<lparr> connections := [] \<rparr>"
  "(snd (setTeacherVolume v (s\<lparr> connections := g \<rparr>)))\<lparr> connections := [] \<rparr> =
     (snd (setTeacherVolume v s))\<lparr> connections := [] \<rparr>"
  by (simp_all add: setMusicVolume_def setTeacherVolume_def split: sum.splits)

lemma disconnect_connections_irrelevant:
  "(disconnect (s\<lparr> connections := g \<rparr>))\<lparr> connections := [] \<rparr> =
     (disconnect s)\<lparr> connections := [] \<rparr>"
  by (simp add: disconnect_filter)

lemma exec_connections_irrelevant:
  "(exec c (s\<lparr> connections := g \<rparr>))\<lparr> connections := [] \<rparr> = (exec c s)\<lparr> connections := [] \<rparr>"
  by (cases c)
     (simp_all add: loadMusic_connections_irrelevant setTeacherStream_connections_irrelevant
        startMusic_connections_irrelevant stopMusic_connections_irrelevant
        setVolume_connections_irrelevant disconnect_connections_irrelevant)

lemma same_fields_exec:
  assumes "s\<lparr> connections := [] \<rparr> = t\<lparr> connections := [] \<rparr>"
  shows "(exec c s)\<lparr> connections := [] \<rparr> = (exec c t)\<lparr> connections := [] \<rparr>"
proof -
  define g where "g = connections t"
  have a: "s\<lparr> connections := g \<rparr> = t\<lparr> connections := g \<rparr>"
    using arg_cong [where f = "\<lambda>r. r\<lparr> connections := g \<rparr>", OF assms] by simp
  have b: "t\<lparr> connections := g \<rparr> = t" by (simp add: g_def)
  have "s\<lparr> connections := g \<rparr> = t" by (rule trans [OF a b])
  then have t: "t = s\<lparr> connections := g \<rparr>" by (rule sym)
  show ?thesis unfolding t by (simp only: exec_connections_irrelevant)
qed

lemma same_fields_run:
  "s\<lparr> connections := [] \<rparr> = t\<lparr> connections := [] \<rparr> \<Longrightarrow>
     (run cs s)\<lparr> connections := [] \<rparr> = (run cs t)\<lparr> connections := [] \<rparr>"
proof (induction cs arbitrary: s t)
  case Nil
  then show ?case by simp
next
  case (Cons c cs)
  have e: "(exec c s)\<lparr> connections := [] \<rparr> = (exec c t)\<lparr> connections := [] \<rparr>"
    using Cons.prems by (rule same_fields_exec)
  show ?case using Cons.IH [OF e] by simp
qed

lemma thrown_connections: "thrown c (s\<lparr> connections := g \<rparr>) = thrown c s"
  by (cases c) (simp_all add: setTeacherStream_def setMusicVolume_def setTeacherVolume_def
      Let_def split: option.splits sum.splits)

lemma same_fields_thrown:
  assumes "s\<lparr> connections := [] \<rparr> = t\<lparr> connections := [] \<rparr>"
  shows "thrown c s = thrown c t"
proof -
  have "thrown c s = thrown c (s\<lparr> connections := [] \<rparr>)" by (simp only: thrown_connections)
  also have "\<dots> = thrown c (t\<lparr> connections := [] \<rparr>)"
    by (rule arg_cong [where f = "thrown c", OF assms])
  also have "\<dots> = thrown c t" by (simp only: thrown_connections)
  finally show ?thesis .
qed

lemma disconnect_same_fields: "(disconnect s)\<lparr> connections := [] \<rparr> = s\<lparr> connections := [] \<rparr>"
  by (simp add: disconnect_filter)

subsection \<open>The playing flag and the attached source\<close>


















subsection \<open>A volume after the clamp\<close>

lemma setVolume_after_clamp:
  assumes "v \<noteq> NaN"
  shows "\<exists>x. clamp_volume v = Fin x \<and> 0 \<le> x \<and> x \<le> 1 \<and>
             setMusicVolume v s = (None, s\<lparr> musicGainValue := Fin (float32_round x) \<rparr>) \<and>
             setTeacherVolume v s = (None, s\<lparr> teacherGainValue := Fin (float32_round x) \<rparr>)"
proof -
  obtain x where x: "clamp_volume v = Fin x" "0 \<le> x" "x \<le> 1"
    using clamp_volume_range [OF assms] by blast
  then show ?thesis
    by (simp add: setMusicVolume_def setTeacherVolume_def to_float_unit)
qed

subsection \<open>The play button resumes before it plays\<close>

lemma togglePlay_resumes_before_play:
  "audioContextRef p = Some Suspended \<Longrightarrow> resume_before_play (togglePlay_commands p)"
  by (simp add: togglePlay_commands_def split: option.splits)

section \<open>Replacing the music source\<close>

text \<open>
  C1 says that \<^verbatim>\<open>loadMusic\<close>, called while a music source is attached, disconnects
  the previous source before it connects the new one, so that one music connection is
  live afterwards. \<^verbatim>\<open>loadMusic\<close> never calls \<^verbatim>\<open>disconnect\<close> on the previous
  source (\<^verbatim>\<open>setTeacherStream\<close> does, for the microphone): after a second successful
  load on the mixer that has loaded one track, both media-element sources are connected
  to the music gain and the first one can no longer be reached through \<open>musicSource\<close>.
  In every state a load keeps the connections it finds (\<open>loadMusic_keeps_connections\<close>).
\<close>

theorem loadMusic_twice_leaves_two_connections:
  "inputs_of MusicGain
     (connections (snd (loadMusic ''/audio/other.mp3'' LoadedData loaded_mixer))) =
     [MediaElementSource 0, MediaElementSource 1] \<and>
   musicSource (snd (loadMusic ''/audio/other.mp3'' LoadedData loaded_mixer)) =
     Some \<lparr> audio = 1, mediaSource = MediaElementSource 1 \<rparr> \<and>
   fst (loadMusic ''/audio/other.mp3'' LoadedData loaded_mixer) = Some True"
  by (simp add: loaded_mixer_def new_mixer_def loadMusic_def Let_def connect_def
      initial_connections_def inputs_of_def)

section \<open>A load that fails\<close>

text \<open>
  C2, as stated, has the music slot absent after a failed load. On the mixer that has
  loaded one track, a second load that fails returns \<^verbatim>\<open>false\<close> and the slot still
  holds the first track.
\<close>

theorem failed_load_keeps_previous_source:
  "fst (loadMusic ''/audio/missing.mp3'' ErrorEvent loaded_mixer) = Some False \<and>
   musicSource (snd (loadMusic ''/audio/missing.mp3'' ErrorEvent loaded_mixer)) \<noteq> None"
  by (simp add: loaded_mixer_def new_mixer_def loadMusic_def Let_def)

text \<open>
  C2, amended. When the awaited load fails, \<^verbatim>\<open>loadMusic\<close> returns \<^verbatim>\<open>false\<close>,
  the connections, the music slot, the microphone slot, the playing flag and both gains
  are what they were before the call (so the slot is absent if it was absent, and no
  partial connection exists), and the call has issued one load command and nothing
  else: no retry.
\<close>

theorem loadMusic_failure_changes_nothing:
  "fst (loadMusic url ErrorEvent s) = Some False \<and>
   connections (snd (loadMusic url ErrorEvent s)) = connections s \<and>
   musicSource (snd (loadMusic url ErrorEvent s)) = musicSource s \<and>
   teacherSource (snd (loadMusic url ErrorEvent s)) = teacherSource s \<and>
   isPlaying (snd (loadMusic url ErrorEvent s)) = isPlaying s \<and>
   musicGainValue (snd (loadMusic url ErrorEvent s)) = musicGainValue s \<and>
   teacherGainValue (snd (loadMusic url ErrorEvent s)) = teacherGainValue s \<and>
   commands_issued s (snd (loadMusic url ErrorEvent s)) = [AudioLoad (nextId s) url] \<and>
   length (filter is_load (commands_issued s (snd (loadMusic url ErrorEvent s)))) = 1"
  by (simp add: loadMusic_def Let_def commands_issued_def)

section \<open>Shutdown\<close>

text \<open>
  C3, as stated, has every other operation fail after \<^verbatim>\<open>disconnect()\<close>. No method
  of the mixer checks for a shutdown: on the new mixer, after \<^verbatim>\<open>disconnect()\<close>,
  \<^verbatim>\<open>setMusicVolume(0.5)\<close> throws nothing and sets the gain.
\<close>

theorem setMusicVolume_after_disconnect_succeeds:
  "thrown (SetMusicVolume (Fin (1/2))) (disconnect new_mixer) = None \<and>
   musicGainValue (exec (SetMusicVolume (Fin (1/2))) (disconnect new_mixer)) = Fin (1/2)"
  by (simp add: setMusicVolume_def clamp_volume_cases to_float_values)

text \<open>
  C3, amended. In every state a constructed mixer reaches, \<^verbatim>\<open>disconnect()\<close> is
  idempotent: it never throws (it is a total function of the state) and a second call
  leaves the state the first call left. That state is closed: nothing is connected to
  the merged output or to the local output, and no later sequence of calls connects
  anything to them again. The calls themselves are not refused afterwards: each one
  throws exactly what it throws on the mixer that was not shut down, and leaves the
  same fields, gains and commands; only the connections differ.
\<close>

theorem disconnect_idempotent_and_final:
  "constructor h c = Inr s0 \<Longrightarrow>
     disconnect (disconnect (run cs s0)) = disconnect (run cs s0) \<and>
     inputs_of StreamDestination (connections (run later (disconnect (run cs s0)))) = [] \<and>
     inputs_of ContextDestination (connections (run later (disconnect (run cs s0)))) = [] \<and>
     thrown e (run later (disconnect (run cs s0))) = thrown e (run later (run cs s0)) \<and>
     (run later (disconnect (run cs s0)))\<lparr> connections := [] \<rparr> =
       (run later (run cs s0))\<lparr> connections := [] \<rparr>"
proof -
  assume c: "constructor h c = Inr s0"
  have "torn_down (run later (disconnect (run cs s0)))"
    by (intro torn_down_run torn_down_disconnect outputs_inv_run outputs_inv_constructor) (rule c)
  then have closed:
    "inputs_of StreamDestination (connections (run later (disconnect (run cs s0)))) = []"
    "inputs_of ContextDestination (connections (run later (disconnect (run cs s0)))) = []"
    using torn_down_outputs by blast+
  have same: "(run later (disconnect (run cs s0)))\<lparr> connections := [] \<rparr> =
       (run later (run cs s0))\<lparr> connections := [] \<rparr>"
    by (rule same_fields_run) (rule disconnect_same_fields)
  show ?thesis
    using closed same same_fields_thrown [OF same, of e] by (simp add: disconnect_twice)
qed

theorem disconnect_idempotent_and_final_witness:
  "constructor example_host default_config = Inr new_mixer \<and>
   inputs_of StreamDestination (connections (run [SetTeacherStream first_stream] new_mixer)) =
     [TeacherGain, MusicGain] \<and>
   inputs_of StreamDestination (connections
     (run [SetTeacherStream second_stream, Disconnect]
        (disconnect (run [SetTeacherStream first_stream] new_mixer)))) = [] \<and>
   inputs_of ContextDestination (connections
     (run [SetTeacherStream second_stream, Disconnect]
        (disconnect (run [SetTeacherStream first_stream] new_mixer)))) = [] \<and>
   disconnect (disconnect (run [SetTeacherStream first_stream] new_mixer)) =
     disconnect (run [SetTeacherStream first_stream] new_mixer)"
proof -
  have "inputs_of StreamDestination
          (connections (run [SetTeacherStream first_stream] new_mixer)) =
        [TeacherGain, MusicGain]"
    by (simp add: setTeacherStream_def first_stream_def new_mixer_def Let_def connect_def
        initial_connections_def inputs_of_def)
  then show ?thesis
    using disconnect_idempotent_and_final [OF new_mixer_constructed,
            of "[SetTeacherStream first_stream]" "[SetTeacherStream second_stream, Disconnect]"]
    by (simp add: new_mixer_constructed)
qed

section \<open>Setting a volume\<close>

text \<open>
  C4, as stated, covers every numeric input. NaN is a number, \<^verbatim>\<open>Math.min\<close> and
  \<^verbatim>\<open>Math.max\<close> return NaN for it, and the assignment of NaN to \<^verbatim>\<open>gain.value\<close>
  throws: on the new mixer, \<^verbatim>\<open>setMusicVolume(NaN)\<close> errors, and the value it tried to
  write is not in \<open>[0, 1]\<close>.
\<close>

theorem setMusicVolume_NaN_throws:
  "fst (setMusicVolume NaN new_mixer) = Some TypeError \<and>
   clamp_volume NaN = NaN \<and> \<not> in_unit_range (clamp_volume NaN)"
  by (simp add: setMusicVolume_def clamp_volume_cases to_float_values)

text \<open>
  C4, amended. For every number other than NaN (finite or infinite),
  \<^verbatim>\<open>setMusicVolume\<close> and \<^verbatim>\<open>setTeacherVolume\<close> throw nothing and the gain they
  leave lies in \<open>[0, 1]\<close>: it is 0 for an input \<open>\<le> 0\<close> and 1 for an input \<open>\<ge> 1\<close>.
\<close>

theorem setVolume_in_unit_range:
  "v \<noteq> NaN \<Longrightarrow>
     fst (setMusicVolume v s) = None \<and> fst (setTeacherVolume v s) = None \<and>
     in_unit_range (musicGainValue (snd (setMusicVolume v s))) \<and>
     in_unit_range (teacherGainValue (snd (setTeacherVolume v s))) \<and>
     (js_le v (Fin 0) \<longrightarrow>
        musicGainValue (snd (setMusicVolume v s)) = Fin 0 \<and>
        teacherGainValue (snd (setTeacherVolume v s)) = Fin 0) \<and>
     (js_le (Fin 1) v \<longrightarrow>
        musicGainValue (snd (setMusicVolume v s)) = Fin 1 \<and>
        teacherGainValue (snd (setTeacherVolume v s)) = Fin 1)"
proof -
  assume v: "v \<noteq> NaN"
  obtain x where x: "clamp_volume v = Fin x" "0 \<le> x" "x \<le> 1"
    and m: "setMusicVolume v s = (None, s\<lparr> musicGainValue := Fin (float32_round x) \<rparr>)"
    and t: "setTeacherVolume v s = (None, s\<lparr> teacherGainValue := Fin (float32_round x) \<rparr>)"
    using setVolume_after_clamp [OF v, of s] by blast
  have lo: "js_le v (Fin 0) \<Longrightarrow> x = 0"
    using x(1) by (cases v) (auto simp: js_le_def clamp_volume_cases)
  have hi: "js_le (Fin 1) v \<Longrightarrow> x = 1"
    using x(1) by (cases v) (auto simp: js_le_def clamp_volume_cases)
  show ?thesis
    using float32_round_unit [OF x(2) x(3)] lo hi
    by (auto simp: m t float32_round_0 float32_round_1)
qed

theorem setVolume_in_unit_range_witness:
  "musicGainValue (snd (setMusicVolume (Fin (3/2)) new_mixer)) = Fin 1 \<and>
   teacherGainValue (snd (setTeacherVolume (Fin (- 1/5)) new_mixer)) = Fin 0 \<and>
   musicGainValue (snd (setMusicVolume PosInf new_mixer)) = Fin 1 \<and>
   teacherGainValue (snd (setTeacherVolume NegInf new_mixer)) = Fin 0 \<and>
   in_unit_range (musicGainValue (snd (setMusicVolume (Fin (3/10)) new_mixer))) \<and>
   fst (setMusicVolume (Fin (3/2)) new_mixer) = None \<and>
   fst (setTeacherVolume (Fin (- 1/5)) new_mixer) = None"
  using setVolume_in_unit_range [of "Fin (3/2)" new_mixer]
        setVolume_in_unit_range [of "Fin (- 1/5)" new_mixer]
        setVolume_in_unit_range [of "Fin (3/10)" new_mixer]
        setVolume_in_unit_range [of PosInf new_mixer]
        setVolume_in_unit_range [of NegInf new_mixer]
  by (simp add: js_le_def)

section \<open>The initial gains\<close>

text \<open>
  C5 says that the constructor takes the two gains from the configuration, or the
  defaults 1.0 and 0.3, and clamps them into \<open>[0, 1]\<close>. The first half holds
  (\<open>constructor_gains\<close>); the constructor does not clamp, as \<^verbatim>\<open>setMusicVolume\<close> and
  \<^verbatim>\<open>setTeacherVolume\<close> do: with \<^verbatim>\<open>initialMusicVolume: 1.5\<close> the music gain of the
  new mixer is 1.5.
\<close>

theorem constructor_does_not_clamp:
  "constructor example_host \<lparr> initialTeacherVolume = None, initialMusicVolume = Some (Fin (3/2)) \<rparr>
     = Inr (new_mixer\<lparr> musicGainValue := Fin (3/2) \<rparr>) \<and>
   \<not> in_unit_range (musicGainValue (new_mixer\<lparr> musicGainValue := Fin (3/2) \<rparr>)) \<and>
   musicGainValue (snd (setMusicVolume (Fin (3/2)) new_mixer)) = Fin 1"
  by (simp add: constructor_def example_host_def new_mixer_def setMusicVolume_def
      clamp_volume_cases to_float_values)

section \<open>Starting while the context is suspended\<close>

text \<open>
  C6. When \<^verbatim>\<open>startMusic\<close> is called while the audio context is suspended, no play
  command is issued before the resume command: among the commands the call issues,
  every play command has a resume command before it. When a source is attached and not
  playing, the call issues exactly the resume command and then the play command.
\<close>

theorem startMusic_resumes_before_play:
  "audioContextState s = Suspended \<Longrightarrow>
     resume_before_play (commands_issued s (startMusic s)) \<and>
     (\<forall>src. musicSource s = Some src \<and> \<not> isPlaying s \<longrightarrow>
        commands_issued s (startMusic s) = [ContextResume, AudioPlay (audio src)])"
  by (auto simp: startMusic_def commands_issued_def Let_def split: option.splits)

theorem startMusic_resumes_before_play_witness:
  "audioContextState loaded_mixer = Suspended \<and>
   musicSource loaded_mixer = Some \<lparr> audio = 0, mediaSource = MediaElementSource 0 \<rparr> \<and>
   \<not> isPlaying loaded_mixer \<and>
   commands_issued loaded_mixer (startMusic loaded_mixer) = [ContextResume, AudioPlay 0]"
  using startMusic_resumes_before_play [of loaded_mixer]
  by (simp add: loaded_mixer_def new_mixer_def loadMusic_def Let_def)

section \<open>The merged stream\<close>

text \<open>
  C7. Once the constructor has returned a mixer, \<^verbatim>\<open>getMixedStream\<close> (a total
  function: it always returns) returns the stream the stream destination was created
  with, after any sequence of calls and changes of the context state, among them loads
  that fail, calls that throw and \<^verbatim>\<open>disconnect()\<close>: the stream is made once and never
  replaced.
\<close>

theorem getMixedStream_constant:
  "constructor h c = Inr s0 \<Longrightarrow> getMixedStream (run cs s0) = destinationStream h"
  by (simp add: getMixedStream_run constructor_stream)

theorem getMixedStream_constant_witness:
  "constructor example_host default_config = Inr new_mixer \<and>
   getMixedStream (run [LoadMusic ''/audio/missing.mp3'' ErrorEvent] new_mixer) = 7 \<and>
   getMixedStream new_mixer = 7"
  using getMixedStream_constant [of example_host default_config new_mixer
          "[LoadMusic ''/audio/missing.mp3'' ErrorEvent]"]
        getMixedStream_constant [of example_host default_config new_mixer "[]"]
  by (simp add: new_mixer_constructed) (simp add: example_host_def)

section \<open>Replacing the microphone source\<close>

text \<open>
  C8. In every state a constructed mixer reaches by a sequence of calls and changes of
  the context state, if a microphone source is attached, \<^verbatim>\<open>setTeacherStream\<close> leaves
  the previous source without any connection and no microphone stream other than the
  new one in the merged output. When the new stream has an audio track (otherwise
  \<^verbatim>\<open>createMediaStreamSource\<close> throws), the call does not throw, the new source is
  the only input of the teacher gain, and the microphone streams in the merged output
  are exactly the new stream (none at all once \<^verbatim>\<open>disconnect()\<close> has cut the teacher
  gain from the stream destination).
\<close>

theorem setTeacherStream_replaces_source:
  "constructor h c = Inr s0 \<Longrightarrow> teacherSource (run cs s0) = Some old \<Longrightarrow>
     old \<notin> fst ` set (connections (snd (setTeacherStream m (run cs s0)))) \<and>
     set (merged_microphone_streams (connections (snd (setTeacherStream m (run cs s0)))))
       \<subseteq> {streamId m} \<and>
     (0 < audioTracks m \<longrightarrow>
        fst (setTeacherStream m (run cs s0)) = None \<and>
        teacherSource (snd (setTeacherStream m (run cs s0))) =
          Some (MediaStreamSource (nextId (run cs s0)) (streamId m)) \<and>
        inputs_of TeacherGain (connections (snd (setTeacherStream m (run cs s0)))) =
          [MediaStreamSource (nextId (run cs s0)) (streamId m)] \<and>
        merged_microphone_streams (connections (snd (setTeacherStream m (run cs s0)))) =
          (if (TeacherGain, StreamDestination) \<in> set (connections (run cs s0))
           then [streamId m] else []))"
  using replace_teacher_source [of "run cs s0" old m]
        replace_teacher_source_any [of "run cs s0" old m]
        teacher_slot_inv_run [OF teacher_slot_inv_constructor, of h c s0 cs]
  by simp

theorem setTeacherStream_replaces_source_witness:
  "constructor example_host default_config = Inr new_mixer \<and>
   teacherSource (run [SetTeacherStream first_stream] new_mixer) = Some (MediaStreamSource 0 11) \<and>
   0 < audioTracks second_stream \<and>
   inputs_of TeacherGain (connections (snd (setTeacherStream second_stream
       (run [SetTeacherStream first_stream] new_mixer)))) = [MediaStreamSource 1 12] \<and>
   merged_microphone_streams (connections (snd (setTeacherStream second_stream
       (run [SetTeacherStream first_stream] new_mixer)))) = [12]"
proof -
  have t: "teacherSource (run [SetTeacherStream first_stream] new_mixer) =
             Some (MediaStreamSource 0 11)"
    by (simp add: setTeacherStream_def first_stream_def new_mixer_def Let_def)
  have n: "nextId (run [SetTeacherStream first_stream] new_mixer) = 1"
    by (simp add: setTeacherStream_def first_stream_def new_mixer_def Let_def)
  have w: "(TeacherGain, StreamDestination) \<in>
             set (connections (run [SetTeacherStream first_stream] new_mixer))"
    by (simp add: setTeacherStream_def first_stream_def new_mixer_def Let_def connect_def
        initial_connections_def)
  have a: "0 < audioTracks second_stream" by (simp add: second_stream_def)
  show ?thesis
    using setTeacherStream_replaces_source [OF new_mixer_constructed t, of second_stream] t n w a
    by (simp add: new_mixer_constructed second_stream_def)
qed

section \<open>Starting what plays, stopping what is stopped\<close>




section \<open>Starting and stopping without a music source\<close>

text \<open>
  C10. While no music source is attached, \<^verbatim>\<open>startMusic\<close> and \<^verbatim>\<open>stopMusic\<close> return
  normally (they are total functions of the state) and leave the whole state as it
  was: the playing flag, both gains, both sources, the connections, and no command is
  issued.
\<close>

theorem no_music_source_start_stop_unchanged:
  "musicSource s = None \<Longrightarrow> startMusic s = s \<and> stopMusic s = s"
  by (simp add: startMusic_def stopMusic_def)

theorem no_music_source_start_stop_unchanged_witness:
  "musicSource new_mixer = None \<and> startMusic new_mixer = new_mixer \<and>
   stopMusic new_mixer = new_mixer"
  using no_music_source_start_stop_unchanged [of new_mixer]
  by (simp add: new_mixer_def)

end
